theory Spec2Isabelle
  imports Main "HOL-Library.Word"
begin

section \<open>Values of the Go runtime and of the AWS SDK\<close>

text \<open>
  A Go \<^verbatim>\<open>string\<close> is a sequence of bytes, which is what a HOL \<^typ>\<open>string\<close> is
  (a list of 8-bit characters). A \<^verbatim>\<open>time.Time\<close> is an instant, kept here as the
  number of nanoseconds since the epoch; \<^verbatim>\<open>time.Duration\<close> is a signed 64-bit
  count of nanoseconds, so negating it wraps as the machine does. The expiration of a
  credential set comes from a service response and carries no monotonic clock reading, so
  \<^verbatim>\<open>After\<close> compares instants on the wall clock.
\<close>

type_synonym Time = int

type_synonym Duration = "64 word"

definition After :: "Time \<Rightarrow> Time \<Rightarrow> bool" where
  "After t u = (u < t)"

definition Add :: "Time \<Rightarrow> Duration \<Rightarrow> Time" where
  "Add t d = t + sint d"

definition Minute :: Duration where
  "Minute = 60000000000"

text \<open>A Go \<^verbatim>\<open>error\<close> value that is not nil, known by its message.\<close>

datatype error = Error string

text \<open>A call either returns its results or panics (a run-time error unwinds the stack).\<close>

datatype 'a outcome = Returns 'a | Panics

section \<open>Role identifiers and container identities\<close>

text \<open>
  Modelled from the spec: the type \<^verbatim>\<open>RoleArn\<close> and its methods \<^verbatim>\<open>Empty\<close>,
  \<^verbatim>\<open>Equals\<close> and \<^verbatim>\<open>String\<close> are declared in another file of the package.
  The spec gives a role identifier a canonical string form, makes two of them equal iff
  their canonical strings match, and calls it empty when no role was specified.
\<close>

record RoleArn =
  canonical :: string

definition Empty :: "RoleArn \<Rightarrow> bool" where
  "Empty r = (length (canonical r) = 0)"

definition Equals :: "RoleArn \<Rightarrow> RoleArn \<Rightarrow> bool" where
  "Equals r other = (canonical r = canonical other)"

definition String :: "RoleArn \<Rightarrow> string" where
  "String r = canonical r"

text \<open>
  Modelled from the spec: the type \<^verbatim>\<open>ContainerInfo\<close> is declared in another file of
  the package. The spec gives a container identity a unique id, a declared role identifier
  (possibly empty) and a declared policy document (possibly the empty string).
\<close>

record ContainerInfo =
  Id_c :: string
  IamRole :: RoleArn
  IamPolicy :: string

section \<open>Credential sets\<close>

record Credentials =
  AccessKey :: string
  Expiration :: Time
  GeneratedAt :: Time
  RoleArn :: RoleArn
  SecretKey :: string
  Token :: string

text \<open>The zero value \<^verbatim>\<open>Credentials{}\<close> that accompanies an error.\<close>

definition Credentials_zero :: Credentials where
  "Credentials_zero =
     \<lparr>AccessKey = [], Expiration = 0, GeneratedAt = 0, RoleArn = \<lparr>canonical = []\<rparr>,
      SecretKey = [], Token = []\<rparr>"

definition ExpiredAt :: "Credentials \<Rightarrow> Time \<Rightarrow> bool" where
  "ExpiredAt self at = After at (Expiration self)"

text \<open>\<^verbatim>\<open>ExpiresIn\<close> reads the clock; the reading is the argument \<open>now\<close>.\<close>

definition ExpiresIn :: "Credentials \<Rightarrow> Time \<Rightarrow> Duration \<Rightarrow> bool" where
  "ExpiresIn self now d = ExpiredAt self (Add now (- d))"

definition ExpiredNow :: "Credentials \<Rightarrow> Time \<Rightarrow> bool" where
  "ExpiredNow self now = ExpiredAt self now"

section \<open>Session names\<close>

definition maxSessionNameLen :: nat where
  "maxSessionNameLen = 32"

definition byte :: "char \<Rightarrow> nat" where
  "byte c = of_char c"

text \<open>
  The regexp engine reads its input rune by rune: a byte below \<^verbatim>\<open>0x80\<close> is a rune
  of width 1, anything else is decoded by \<^verbatim>\<open>utf8.DecodeRuneInString\<close>, which gives
  the width of a well-formed UTF-8 sequence and width 1 (the rune \<^verbatim>\<open>U+FFFD\<close>) for a
  byte that starts none. \<open>first_size\<close> is the sequence length a lead byte announces and
  \<open>accepts\<close> the range allowed for the second byte, as in the library's tables.
\<close>

definition first_size :: "nat \<Rightarrow> nat" where
  "first_size b =
     (if b < 128 then 1
      else if b < 194 then 1
      else if b < 224 then 2
      else if b < 240 then 3
      else if b < 245 then 4
      else 1)"

definition accepts :: "nat \<Rightarrow> nat \<Rightarrow> bool" where
  "accepts b s1 =
     (if b = 224 then 160 \<le> s1 \<and> s1 \<le> 191
      else if b = 237 then 128 \<le> s1 \<and> s1 \<le> 159
      else if b = 240 then 144 \<le> s1 \<and> s1 \<le> 191
      else if b = 244 then 128 \<le> s1 \<and> s1 \<le> 143
      else 128 \<le> s1 \<and> s1 \<le> 191)"

definition continuation :: "nat \<Rightarrow> bool" where
  "continuation b = (128 \<le> b \<and> b \<le> 191)"

fun DecodeRuneInString_width :: "string \<Rightarrow> nat" where
  "DecodeRuneInString_width [] = 0"
| "DecodeRuneInString_width (s0 # s) =
     (let sz = first_size (byte s0) in
      if sz = 1 then 1
      else if length (s0 # s) < sz then 1
      else if \<not> accepts (byte s0) (byte (s ! 0)) then 1
      else if sz \<le> 2 then 2
      else if \<not> continuation (byte (s ! 1)) then 1
      else if sz \<le> 3 then 3
      else if \<not> continuation (byte (s ! 2)) then 1
      else 4)"

text \<open>The perl class \<^verbatim>\<open>\w\<close> of Go's regexp syntax: \<^verbatim>\<open>[0-9A-Za-z_]\<close>, ASCII only.\<close>

definition word_char :: "char \<Rightarrow> bool" where
  "word_char c =
     (let n = byte c in
      (48 \<le> n \<and> n \<le> 57) \<or> (65 \<le> n \<and> n \<le> 90) \<or> n = 95 \<or> (97 \<le> n \<and> n \<le> 122))"

text \<open>The characters a session name may hold: the class \<^verbatim>\<open>[\w+=,.@-]\<close>.\<close>

definition valid_session_char :: "char \<Rightarrow> bool" where
  "valid_session_char c = (word_char c \<or> c \<in> set ''+=,.@-'')"

text \<open>
  \<^verbatim>\<open>invalidSessionNameRegexp\<close> is \<^verbatim>\<open>[^\w+=,.@-]\<close>: it matches one rune outside
  the class. The model gives the width in bytes of its match at the start of a string, and
  0 when it does not match there. A rune that is not ASCII is never in the class.
\<close>

definition invalidSessionNameRegexp :: "string \<Rightarrow> nat" where
  "invalidSessionNameRegexp s =
     (case s of
        [] \<Rightarrow> 0
      | c # cs \<Rightarrow>
          if byte c < 128 then (if valid_session_char c then 0 else 1)
          else DecodeRuneInString_width s)"

text \<open>
  \<^verbatim>\<open>invalidSessionNameRegexp.ReplaceAllString(src, repl)\<close>: every match is replaced
  by \<open>repl\<close> (which holds no \<^verbatim>\<open>$\<close>, so it is taken literally), every other byte is
  copied.
\<close>

fun ReplaceAllString :: "string \<Rightarrow> string \<Rightarrow> string" where
  "ReplaceAllString [] repl = []"
| "ReplaceAllString (c # cs) repl =
     (let n = invalidSessionNameRegexp (c # cs) in
      if n = 0 then c # ReplaceAllString cs repl
      else repl @ ReplaceAllString (drop (n - 1) cs) repl)"

text \<open>
  The slice expression \<^verbatim>\<open>s[0:maxSessionNameLen]\<close> panics when the string is shorter
  than the upper bound.
\<close>

definition generateSessionName :: "string \<Rightarrow> string \<Rightarrow> string outcome" where
  "generateSessionName platform containerId =
     (let sessionName = platform @ ''-'' @ containerId;
          replaced = ReplaceAllString sessionName ''_''
      in if maxSessionNameLen \<le> length replaced
         then Returns (take maxSessionNameLen replaced)
         else Panics)"

section \<open>Cached entries\<close>

record ContainerCredentials =
  ContainerInfo :: ContainerInfo
  Credentials :: Credentials

definition ContainerCredentials_zero :: ContainerCredentials where
  "ContainerCredentials_zero =
     \<lparr>ContainerInfo = \<lparr>Id_c = [], IamRole = \<lparr>canonical = []\<rparr>, IamPolicy = []\<rparr>,
      Credentials = Credentials_zero\<rparr>"

definition IsValid :: "ContainerCredentials \<Rightarrow> Time \<Rightarrow> ContainerInfo \<Rightarrow> bool" where
  "IsValid self now container_info =
     (Equals (IamRole (ContainerInfo self)) (IamRole container_info) \<and>
      Id_c (ContainerInfo self) = Id_c container_info \<and>
      \<not> ExpiresIn (Credentials self) now (5 * Minute))"

section \<open>The provider and its collaborators\<close>

text \<open>
  Modelled from the spec: the interface \<^verbatim>\<open>ContainerService\<close> is declared in another
  file of the package. The spec gives the identity-resolution collaborator an operation
  that resolves an address to a container identity or fails, and an accessor for its
  platform tag.
\<close>

record ContainerService =
  ContainerForIP :: "string \<Rightarrow> error + ContainerInfo"
  TypeName :: string

text \<open>
  The request and the response of the Security Token Service, as the SDK declares them:
  every field is a pointer, \<open>None\<close> being nil. Only the fields this package sets or reads
  are kept.
\<close>

record AssumeRoleInput =
  DurationSeconds :: "int option"
  Policy :: "string option"
  RoleArn_sts :: "string option"
  RoleSessionName :: "string option"

record sts_Credentials =
  AccessKeyId :: "string option"
  Expiration_sts :: "Time option"
  SecretAccessKey :: "string option"
  SessionToken :: "string option"

record AssumeRoleOutput =
  Credentials_sts :: "sts_Credentials option"

text \<open>
  The provider. Its mutex takes no part in a sequential run and is left out; the handle
  \<open>awsSts\<close> stands for the client's \<^verbatim>\<open>AssumeRole\<close> operation.
\<close>

record CredentialsProvider =
  container :: ContainerService
  awsSts :: "AssumeRoleInput \<Rightarrow> error + AssumeRoleOutput"
  defaultIamRoleArn :: RoleArn
  defaultIamPolicy :: string
  containerCredentials :: "string \<rightharpoonup> ContainerCredentials"

text \<open>
  \<^verbatim>\<open>AssumeRole\<close> gives the requests it sent to the service and its outcome. Reading a
  field of the response through a nil pointer panics. \<open>now\<close> is the clock as read for
  \<^verbatim>\<open>GeneratedAt\<close>.
\<close>

definition AssumeRole ::
  "CredentialsProvider \<Rightarrow> Time \<Rightarrow> RoleArn \<Rightarrow> string \<Rightarrow> string \<Rightarrow>
   AssumeRoleInput list \<times> (Credentials \<times> error option) outcome" where
  "AssumeRole self now roleArn iamPolicy sessionName =
     (let policy = (if length iamPolicy > 0 then Some iamPolicy else None);
          input = \<lparr>DurationSeconds = Some 3600, Policy = policy,
                   RoleArn_sts = Some (String roleArn), RoleSessionName = Some sessionName\<rparr>
      in case awsSts self input of
           Inl err \<Rightarrow> ([input], Returns (Credentials_zero, Some err))
         | Inr resp \<Rightarrow>
             (case Credentials_sts resp of
                None \<Rightarrow> ([input], Panics)
              | Some c \<Rightarrow>
                  (case (AccessKeyId c, SecretAccessKey c, SessionToken c, Expiration_sts c) of
                     (Some k, Some sk, Some t, Some e) \<Rightarrow>
                       ([input],
                        Returns (\<lparr>AccessKey = k, Expiration = e, GeneratedAt = now,
                                  RoleArn = \<lparr>canonical = []\<rparr>, SecretKey = sk, Token = t\<rparr>,
                                 None))
                   | _ \<Rightarrow> ([input], Panics))))"

text \<open>
  What a call of \<^verbatim>\<open>CredentialsForIP\<close> leaves behind: what it returned, the provider
  after the call, and the requests sent to the service during the call.
\<close>

record Call =
  returned :: "(Credentials \<times> error option) outcome"
  provider :: CredentialsProvider
  sent :: "AssumeRoleInput list"

text \<open>
  \<open>now\<close> is the clock as \<^verbatim>\<open>IsValid\<close> reads it, \<open>now'\<close> as \<^verbatim>\<open>AssumeRole\<close> reads
  it after the service has answered.
\<close>

fun CredentialsForIP :: "CredentialsProvider \<Rightarrow> Time \<Rightarrow> Time \<Rightarrow> string \<Rightarrow> Call" where
  "CredentialsForIP self now now' containerIP =
     (case ContainerForIP (container self) containerIP of
        Inl err \<Rightarrow> \<lparr>returned = Returns (Credentials_zero, Some err), provider = self, sent = []\<rparr>
      | Inr container_info \<Rightarrow>
          (let found = (containerCredentials self containerIP \<noteq> None);
               oldCredentials = (case containerCredentials self containerIP of
                                   Some entry \<Rightarrow> entry
                                 | None \<Rightarrow> ContainerCredentials_zero)
           in if \<not> found \<or> \<not> IsValid oldCredentials now container_info then
                (let roleArn = IamRole container_info;
                     iamPolicy = IamPolicy container_info;
                     (roleArn, iamPolicy) =
                       (if Empty roleArn
                        then (defaultIamRoleArn self,
                              if length iamPolicy = 0 then defaultIamPolicy self else iamPolicy)
                        else (roleArn, iamPolicy))
                 in case generateSessionName (TypeName (container self)) (Id_c container_info) of
                      Panics \<Rightarrow> \<lparr>returned = Panics, provider = self, sent = []\<rparr>
                    | Returns sessionName \<Rightarrow>
                        (case AssumeRole self now' roleArn iamPolicy sessionName of
                           (reqs, Panics) \<Rightarrow>
                             \<lparr>returned = Panics, provider = self, sent = reqs\<rparr>
                         | (reqs, Returns (role, Some err)) \<Rightarrow>
                             \<lparr>returned = Returns (Credentials_zero, Some err),
                              provider = self, sent = reqs\<rparr>
                         | (reqs, Returns (role, None)) \<Rightarrow>
                             (let oldCredentials =
                                    \<lparr>ContainerInfo = container_info, Credentials = role\<rparr>
                              in \<lparr>returned = Returns (Credentials oldCredentials, None),
                                  provider = self\<lparr>containerCredentials :=
                                    (containerCredentials self)(containerIP \<mapsto> oldCredentials)\<rparr>,
                                  sent = reqs\<rparr>)))
              else \<lparr>returned = Returns (Credentials oldCredentials, None),
                    provider = self, sent = []\<rparr>))"

declare CredentialsForIP.simps [simp del]

text \<open>
  The effective role and the effective policy of a refresh as the spec words them: the
  declared role when it is not empty, else the configured default; the configured default
  policy when the container declared neither a role nor a policy, else the declared
  policy. The code computes both inline in \<^verbatim>\<open>CredentialsForIP\<close>; lemma
  \<open>CredentialsForIP_refresh\<close> below compares the two.
\<close>

definition effective_role :: "CredentialsProvider \<Rightarrow> ContainerInfo \<Rightarrow> RoleArn" where
  "effective_role self c = (if Empty (IamRole c) then defaultIamRoleArn self else IamRole c)"

definition effective_policy :: "CredentialsProvider \<Rightarrow> ContainerInfo \<Rightarrow> string" where
  "effective_policy self c =
     (if Empty (IamRole c) \<and> IamPolicy c = [] then defaultIamPolicy self else IamPolicy c)"

text \<open>Concrete values used where a theorem is run on an input.\<close>

definition creds0 :: Credentials where
  "creds0 =
     \<lparr>AccessKey = ''AKIA'', Expiration = 60000000000, GeneratedAt = 0,
      RoleArn = \<lparr>canonical = []\<rparr>, SecretKey = ''s'', Token = ''t''\<rparr>"

definition info0 :: ContainerInfo where
  "info0 = \<lparr>Id_c = ''0123456789abcdef0123456789abcdef'',
            IamRole = \<lparr>canonical = ''arn:aws:iam::1:role/app''\<rparr>, IamPolicy = []\<rparr>"

definition info1 :: ContainerInfo where
  "info1 = \<lparr>Id_c = ''fedcba9876543210fedcba9876543210'',
            IamRole = \<lparr>canonical = []\<rparr>, IamPolicy = ''{}''\<rparr>"

definition service0 :: ContainerService where
  "service0 =
     \<lparr>ContainerForIP = (\<lambda>ip. if ip = ''10.0.0.2'' then Inr info0
                              else if ip = ''10.0.0.3'' then Inr info1
                              else Inl (Error ''no container'')),
      TypeName = ''docker''\<rparr>"

definition sts_grants :: "AssumeRoleInput \<Rightarrow> error + AssumeRoleOutput" where
  "sts_grants req =
     Inr \<lparr>Credentials_sts = Some \<lparr>AccessKeyId = Some ''ASIA'',
                                   Expiration_sts = Some 3600000000000,
                                   SecretAccessKey = Some ''k'', SessionToken = Some ''tok''\<rparr>\<rparr>"

definition sts_denies :: "AssumeRoleInput \<Rightarrow> error + AssumeRoleOutput" where
  "sts_denies req = Inl (Error ''AccessDenied'')"

definition provider0 :: CredentialsProvider where
  "provider0 =
     \<lparr>container = service0, awsSts = sts_grants,
      defaultIamRoleArn = \<lparr>canonical = ''arn:aws:iam::1:role/default''\<rparr>,
      defaultIamPolicy = ''{default}'',
      containerCredentials = [''10.0.0.2'' \<mapsto> \<lparr>ContainerInfo = info0, Credentials = creds0\<rparr>]\<rparr>"

definition provider_denied :: CredentialsProvider where
  "provider_denied = provider0\<lparr>awsSts := sts_denies\<rparr>"

section \<open>Expiry predicates\<close>

lemma ExpiresIn_iff: "ExpiresIn self now d = (Expiration self < now + sint (- d))"
  by (simp add: ExpiresIn_def ExpiredAt_def After_def Add_def)

lemma five_minutes: "sint (- (5 * Minute)) = - 300000000000"
  by (simp add: Minute_def)

lemma ExpiresIn_five_minutes:
  "ExpiresIn self now (5 * Minute) = (Expiration self < now - 300000000000)"
  by (simp add: ExpiresIn_iff five_minutes)

text \<open>
  Claim C9. \<^verbatim>\<open>ExpiredAt\<close> holds of an instant exactly when the instant is strictly
  after the expiration timestamp: it holds any positive distance after the expiration,
  fails any positive distance before it, and fails at the expiration itself.
\<close>

theorem ExpiredAt_strictly_after:
  assumes "0 < e"
  shows "ExpiredAt self at = (Expiration self < at) \<and>
         ExpiredAt self (Expiration self + e) \<and>
         \<not> ExpiredAt self (Expiration self - e) \<and>
         \<not> ExpiredAt self (Expiration self)"
  using assms by (simp add: ExpiredAt_def After_def)

theorem ExpiredAt_strictly_after_witness:
  "(0::int) < 1 \<and> ExpiredAt creds0 60000000001 \<and>
   \<not> ExpiredAt creds0 59999999999 \<and> \<not> ExpiredAt creds0 60000000000"
  using ExpiredAt_strictly_after [of 1 creds0 0] by (simp add: creds0_def)

text \<open>
  Claim C1. The claim wants \<^verbatim>\<open>ExpiresIn(d)\<close> to hold exactly when \<open>now + d\<close> is after
  the expiration. The code moves the clock back by \<open>d\<close> instead of forward: for a set that
  expires one minute from now and a duration of five minutes, \<open>now + d\<close> is after the
  expiration and \<^verbatim>\<open>ExpiresIn\<close> is false.
\<close>

theorem ExpiresIn_looks_backwards:
  "\<not> ExpiresIn creds0 0 (5 * Minute) \<and> After (Add 0 (5 * Minute)) (Expiration creds0)"
  by (simp add: ExpiresIn_iff creds0_def After_def Add_def Minute_def)

section \<open>Session names\<close>

lemma ReplaceAllString_Cons:
  "ReplaceAllString (c # cs) repl =
     (if invalidSessionNameRegexp (c # cs) = 0 then c # ReplaceAllString cs repl
      else repl @ ReplaceAllString (drop (invalidSessionNameRegexp (c # cs) - 1) cs) repl)"
  by (simp add: Let_def)

declare ReplaceAllString.simps(2) [simp del]

lemmas session_name_eval =
  ReplaceAllString_Cons invalidSessionNameRegexp_def byte_def valid_session_char_def
  word_char_def first_size_def accepts_def continuation_def Let_def

lemma unmatched_is_valid:
  assumes "invalidSessionNameRegexp (c # cs) = 0"
  shows "valid_session_char c"
proof (cases "byte c < 128")
  case True
  with assms show ?thesis
    by (simp add: invalidSessionNameRegexp_def split: if_splits)
next
  case False
  then have "invalidSessionNameRegexp (c # cs) = DecodeRuneInString_width (c # cs)"
    by (simp add: invalidSessionNameRegexp_def)
  moreover have "DecodeRuneInString_width (c # cs) \<noteq> 0"
    by (simp add: Let_def)
  ultimately show ?thesis using assms by simp
qed

lemma ReplaceAllString_valid:
  assumes repl: "\<forall>x \<in> set repl. valid_session_char x"
  shows "\<forall>x \<in> set (ReplaceAllString s repl). valid_session_char x"
  using repl
proof (induction s repl rule: ReplaceAllString.induct)
  case (1 repl)
  show ?case by simp
next
  case (2 c cs repl)
  show ?case
  proof (cases "invalidSessionNameRegexp (c # cs) = 0")
    case True
    have ih: "\<forall>x \<in> set (ReplaceAllString cs repl). valid_session_char x"
      using "2.IH"(1) [OF refl True "2.prems"] .
    have "valid_session_char c" using True by (rule unmatched_is_valid)
    with ih show ?thesis by (simp add: ReplaceAllString_Cons True)
  next
    case False
    have ih: "\<forall>x \<in> set (ReplaceAllString (drop (invalidSessionNameRegexp (c # cs) - 1) cs) repl).
                valid_session_char x"
      using "2.IH"(2) [OF refl False "2.prems"] .
    with "2.prems" show ?thesis by (simp add: ReplaceAllString_Cons False ball_Un)
  qed
qed

lemma length_ReplaceAllString:
  assumes "length repl \<le> 1"
  shows "length (ReplaceAllString s repl) \<le> length s"
  using assms
proof (induction s repl rule: ReplaceAllString.induct)
  case (1 repl)
  show ?case by simp
next
  case (2 c cs repl)
  show ?case
  proof (cases "invalidSessionNameRegexp (c # cs) = 0")
    case True
    have "length (ReplaceAllString cs repl) \<le> length cs"
      using "2.IH"(1) [OF refl True "2.prems"] .
    then show ?thesis by (simp add: ReplaceAllString_Cons True)
  next
    case False
    have "length (ReplaceAllString (drop (invalidSessionNameRegexp (c # cs) - 1) cs) repl)
            \<le> length (drop (invalidSessionNameRegexp (c # cs) - 1) cs)"
      using "2.IH"(2) [OF refl False "2.prems"] .
    also have "\<dots> \<le> length cs" by simp
    finally show ?thesis using "2.prems" by (simp add: ReplaceAllString_Cons False)
  qed
qed

lemma underscore_valid: "\<forall>x \<in> set ''_''. valid_session_char x"
  by (simp add: valid_session_char_def word_char_def byte_def)

text \<open>
  When \<^verbatim>\<open>generateSessionName\<close> returns, the name is the first 32 bytes of the
  concatenation with every rune outside the class replaced by an underscore; it is 32
  bytes long and holds characters of the class only.
\<close>

lemma generateSessionName_Returns:
  assumes "generateSessionName platform containerId = Returns name"
  shows "name = take 32 (ReplaceAllString (platform @ ''-'' @ containerId) ''_'') \<and>
         length name = 32 \<and> (\<forall>x \<in> set name. valid_session_char x)"
proof -
  let ?r = "ReplaceAllString (platform @ ''-'' @ containerId) ''_''"
  from assms have len: "32 \<le> length ?r" and name: "name = take 32 ?r"
    by (auto simp add: generateSessionName_def maxSessionNameLen_def Let_def split: if_splits)
  have "\<forall>x \<in> set ?r. valid_session_char x"
    using underscore_valid by (rule ReplaceAllString_valid)
  then have "\<forall>x \<in> set name. valid_session_char x"
    unfolding name by (meson in_set_takeD)
  with len name show ?thesis by simp
qed

text \<open>Replacing never lengthens the string, so any short pair of inputs panics.\<close>

lemma generateSessionName_short_input_panics:
  assumes "length platform + length containerId < 31"
  shows "generateSessionName platform containerId = Panics"
proof -
  have "length (ReplaceAllString (platform @ ''-'' @ containerId) ''_'')
          \<le> length (platform @ ''-'' @ containerId)"
    by (rule length_ReplaceAllString) simp
  with assms show ?thesis
    by (simp add: generateSessionName_def maxSessionNameLen_def Let_def)
qed

text \<open>
  Claim C5. For a platform tag and a container id whose sanitized concatenation is shorter
  than 32 bytes, the slice \<^verbatim>\<open>[0:32]\<close> of \<^verbatim>\<open>generateSessionName\<close> is out of bounds:
  the call panics, so the operation is not total.
\<close>

theorem generateSessionName_short_panics:
  assumes "length (ReplaceAllString (platform @ ''-'' @ containerId) ''_'') < 32"
  shows "generateSessionName platform containerId = Panics"
  using assms by (simp add: generateSessionName_def maxSessionNameLen_def Let_def)

theorem generateSessionName_short_panics_witness:
  "length (ReplaceAllString (''ecs'' @ ''-'' @ ''c0ffee'') ''_'') < 32 \<and>
   generateSessionName ''ecs'' ''c0ffee'' = Panics"
proof -
  have h: "length (ReplaceAllString (''ecs'' @ ''-'' @ ''c0ffee'') ''_'') < 32"
    by (simp add: session_name_eval)
  from h generateSessionName_short_panics [OF h] show ?thesis by (rule conjI)
qed

text \<open>
  Claim C6. The claim promises, for any platform tag and container id, a session name that
  is the sanitized concatenation, at most 32 long. For the platform \<^verbatim>\<open>docker\<close> and the
  container id \<^verbatim>\<open>abc\<close> the sanitized concatenation is \<^verbatim>\<open>docker-abc\<close>, within the
  maximum length, and the code produces no name: it panics.
\<close>

theorem generateSessionName_docker_abc:
  "generateSessionName ''docker'' ''abc'' = Panics \<and>
   ReplaceAllString (''docker'' @ ''-'' @ ''abc'') ''_'' = ''docker-abc'' \<and>
   length ''docker-abc'' \<le> maxSessionNameLen"
  by (simp add: generateSessionName_def maxSessionNameLen_def session_name_eval)

text \<open>Two container ids long enough for a session name.\<close>

lemma name0:
  "generateSessionName ''docker'' ''0123456789abcdef0123456789abcdef'' =
     Returns ''docker-0123456789abcdef012345678''"
  by (simp add: generateSessionName_def maxSessionNameLen_def session_name_eval)

lemma name1:
  "generateSessionName ''docker'' ''fedcba9876543210fedcba9876543210'' =
     Returns ''docker-fedcba9876543210fedcba987''"
  by (simp add: generateSessionName_def maxSessionNameLen_def session_name_eval)

section \<open>The assumption exchange\<close>

lemma AssumeRole_sent:
  "fst (AssumeRole self now roleArn iamPolicy sessionName) =
     [\<lparr>DurationSeconds = Some 3600,
       Policy = (if iamPolicy = [] then None else Some iamPolicy),
       RoleArn_sts = Some (String roleArn), RoleSessionName = Some sessionName\<rparr>]"
  by (simp add: AssumeRole_def Let_def split: sum.split option.split)

lemma AssumeRole_error:
  assumes "fst (AssumeRole self now roleArn iamPolicy sessionName) = [req]"
  shows "(snd (AssumeRole self now roleArn iamPolicy sessionName) = Returns (cr, Some err)) =
         (awsSts self req = Inl err \<and> cr = Credentials_zero)"
  using assms
  by (auto simp add: AssumeRole_def Let_def split: sum.splits option.splits)

text \<open>
  Claim C7. Every call of \<^verbatim>\<open>AssumeRole\<close> sends one request to the service: its
  duration is 3600 seconds, its policy is absent exactly when the policy string is empty
  and is the string itself otherwise, its role is the role identifier's string and its
  session name the one given.
\<close>

theorem AssumeRole_request:
  "\<exists>req. fst (AssumeRole self now roleArn iamPolicy sessionName) = [req] \<and>
         DurationSeconds req = Some 3600 \<and>
         (Policy req = None) = (iamPolicy = []) \<and>
         Policy req = (if iamPolicy = [] then None else Some iamPolicy) \<and>
         RoleArn_sts req = Some (String roleArn) \<and>
         RoleSessionName req = Some sessionName"
  by (simp add: AssumeRole_sent)

section \<open>The three ways through \<^verbatim>\<open>CredentialsForIP\<close>\<close>

lemma CredentialsForIP_unresolved:
  assumes "ContainerForIP (container self) containerIP = Inl err"
  shows "CredentialsForIP self now now' containerIP =
           \<lparr>returned = Returns (Credentials_zero, Some err), provider = self, sent = []\<rparr>"
  using assms by (simp add: CredentialsForIP.simps)

lemma CredentialsForIP_reuse:
  assumes "ContainerForIP (container self) containerIP = Inr c"
    and "containerCredentials self containerIP = Some entry"
    and "IsValid entry now c"
  shows "CredentialsForIP self now now' containerIP =
           \<lparr>returned = Returns (Credentials entry, None), provider = self, sent = []\<rparr>"
  using assms by (simp add: CredentialsForIP.simps)

lemma CredentialsForIP_refresh:
  assumes "ContainerForIP (container self) containerIP = Inr c"
    and "containerCredentials self containerIP = None \<or>
         (\<exists>entry. containerCredentials self containerIP = Some entry \<and> \<not> IsValid entry now c)"
  shows "CredentialsForIP self now now' containerIP =
           (case generateSessionName (TypeName (container self)) (Id_c c) of
              Panics \<Rightarrow> \<lparr>returned = Panics, provider = self, sent = []\<rparr>
            | Returns sessionName \<Rightarrow>
                (case AssumeRole self now' (effective_role self c) (effective_policy self c)
                        sessionName of
                   (reqs, Panics) \<Rightarrow> \<lparr>returned = Panics, provider = self, sent = reqs\<rparr>
                 | (reqs, Returns (role, Some err)) \<Rightarrow>
                     \<lparr>returned = Returns (Credentials_zero, Some err), provider = self,
                      sent = reqs\<rparr>
                 | (reqs, Returns (role, None)) \<Rightarrow>
                     \<lparr>returned = Returns (role, None),
                      provider = self\<lparr>containerCredentials :=
                        (containerCredentials self)(containerIP \<mapsto>
                           \<lparr>ContainerInfo = c, Credentials = role\<rparr>)\<rparr>,
                      sent = reqs\<rparr>))"
  using assms
  by (auto simp add: CredentialsForIP.simps Let_def effective_role_def effective_policy_def
           split: outcome.splits prod.splits option.splits)


lemma CredentialsForIP_refresh_sent:
  assumes "ContainerForIP (container self) containerIP = Inr c"
    and "containerCredentials self containerIP = None \<or>
         (\<exists>entry. containerCredentials self containerIP = Some entry \<and> \<not> IsValid entry now c)"
    and "generateSessionName (TypeName (container self)) (Id_c c) = Returns name"
  shows "sent (CredentialsForIP self now now' containerIP) =
           fst (AssumeRole self now' (effective_role self c) (effective_policy self c) name)"
  using CredentialsForIP_refresh [OF assms(1,2), of now'] assms(3)
  by (auto split: outcome.splits prod.splits option.splits)

section \<open>Validity of a cached entry\<close>

text \<open>What \<^verbatim>\<open>IsValid\<close> computes, with the clock arithmetic carried out.\<close>

lemma IsValid_iff:
  "IsValid entry now c =
     (canonical (IamRole (ContainerInfo entry)) = canonical (IamRole c) \<and>
      Id_c (ContainerInfo entry) = Id_c c \<and>
      now - 300000000000 \<le> Expiration (Credentials entry))"
  by (auto simp add: IsValid_def Equals_def ExpiresIn_five_minutes)

text \<open>
  With the container resolved and a session name at hand, no request is sent exactly when
  the address has an entry that \<^verbatim>\<open>IsValid\<close> accepts; a changed role sends one.
\<close>

lemma CredentialsForIP_reuse_iff:
  assumes "ContainerForIP (container self) containerIP = Inr c"
    and "generateSessionName (TypeName (container self)) (Id_c c) = Returns name"
  shows "(sent (CredentialsForIP self now now' containerIP) = []) =
         (\<exists>entry. containerCredentials self containerIP = Some entry \<and> IsValid entry now c)"
proof (cases "\<exists>entry. containerCredentials self containerIP = Some entry \<and> IsValid entry now c")
  case True
  with assms(1) show ?thesis by (auto simp add: CredentialsForIP_reuse)
next
  case False
  then have stale: "containerCredentials self containerIP = None \<or>
       (\<exists>entry. containerCredentials self containerIP = Some entry \<and> \<not> IsValid entry now c)"
    by (cases "containerCredentials self containerIP") auto
  let ?A = "AssumeRole self now' (effective_role self c) (effective_policy self c) name"
  from CredentialsForIP_refresh [OF assms(1) stale, of now'] assms(2)
  have "sent (CredentialsForIP self now now' containerIP) = fst ?A"
    by (auto split: outcome.splits prod.splits option.splits)
  with False show ?thesis by (simp add: AssumeRole_sent)
qed

lemma role_change_refreshes:
  assumes "ContainerForIP (container self) containerIP = Inr c"
    and "containerCredentials self containerIP = Some entry"
    and "canonical (IamRole (ContainerInfo entry)) \<noteq> canonical (IamRole c)"
    and "generateSessionName (TypeName (container self)) (Id_c c) = Returns name"
  shows "length (sent (CredentialsForIP self now now' containerIP)) = 1"
proof -
  from assms(3) have "\<not> IsValid entry now c" by (simp add: IsValid_iff)
  with assms(2) have "containerCredentials self containerIP = None \<or>
       (\<exists>entry. containerCredentials self containerIP = Some entry \<and> \<not> IsValid entry now c)"
    by simp
  from CredentialsForIP_refresh [OF assms(1) this, of now'] assms(4)
  have "sent (CredentialsForIP self now now' containerIP) =
          fst (AssumeRole self now' (effective_role self c) (effective_policy self c) name)"
    by (auto split: outcome.splits prod.splits option.splits)
  then show ?thesis by (simp add: AssumeRole_sent)
qed

text \<open>
  Claim C2. The claim makes an entry valid only if its credential set does not expire
  within five minutes. The entry of \<open>provider0\<close> for \<^verbatim>\<open>10.0.0.2\<close> matches the resolved
  role and id and expires one minute after instant 0: at instant 0 it expires within the
  margin, at instant 120 s it has expired, and both times the code reuses it and sends no
  request.
\<close>

theorem reuse_within_margin:
  "sent (CredentialsForIP provider0 0 1 ''10.0.0.2'') = [] \<and>
   returned (CredentialsForIP provider0 0 1 ''10.0.0.2'') = Returns (creds0, None) \<and>
   After (Add 0 (5 * Minute)) (Expiration creds0) \<and>
   sent (CredentialsForIP provider0 120000000000 120000000001 ''10.0.0.2'') = [] \<and>
   returned (CredentialsForIP provider0 120000000000 120000000001 ''10.0.0.2'') =
     Returns (creds0, None) \<and>
   ExpiredNow creds0 120000000000"
proof -
  have r: "ContainerForIP (container provider0) ''10.0.0.2'' = Inr info0"
    by (simp add: provider0_def service0_def)
  have e: "containerCredentials provider0 ''10.0.0.2'' =
             Some \<lparr>ContainerInfo = info0, Credentials = creds0\<rparr>"
    by (simp add: provider0_def)
  have v0: "IsValid \<lparr>ContainerInfo = info0, Credentials = creds0\<rparr> 0 info0"
    by (simp add: IsValid_iff creds0_def)
  have v1: "IsValid \<lparr>ContainerInfo = info0, Credentials = creds0\<rparr> 120000000000 info0"
    by (simp add: IsValid_iff creds0_def)
  have "After (Add 0 (5 * Minute)) (Expiration creds0)"
    by (simp add: After_def Add_def Minute_def creds0_def)
  moreover have "ExpiredNow creds0 120000000000"
    by (simp add: ExpiredNow_def ExpiredAt_def After_def creds0_def)
  ultimately show ?thesis
    by (simp add: CredentialsForIP_reuse [OF r e v0] CredentialsForIP_reuse [OF r e v1])
qed


section \<open>Refreshing\<close>

text \<open>
  Claim C3. When a refresh sends its request, the role asked for is the container's
  declared role when that is not empty and the configured default otherwise; the policy
  asked for is the configured default only when the declared role and the declared policy
  are both empty, and the declared policy in every other case.
\<close>

theorem CredentialsForIP_refresh_request:
  assumes "ContainerForIP (container self) containerIP = Inr c"
    and "containerCredentials self containerIP = None \<or>
         (\<exists>entry. containerCredentials self containerIP = Some entry \<and> \<not> IsValid entry now c)"
    and "generateSessionName (TypeName (container self)) (Id_c c) = Returns name"
  shows "sent (CredentialsForIP self now now' containerIP) =
           [\<lparr>DurationSeconds = Some 3600,
             Policy = (if effective_policy self c = [] then None
                       else Some (effective_policy self c)),
             RoleArn_sts = Some (String (effective_role self c)),
             RoleSessionName = Some name\<rparr>] \<and>
         effective_role self c =
           (if Empty (IamRole c) then defaultIamRoleArn self else IamRole c) \<and>
         effective_policy self c =
           (if Empty (IamRole c)
            then (if IamPolicy c = [] then defaultIamPolicy self else IamPolicy c)
            else IamPolicy c)"
proof -
  let ?A = "AssumeRole self now' (effective_role self c) (effective_policy self c) name"
  from CredentialsForIP_refresh [OF assms(1,2), of now'] assms(3)
  have "sent (CredentialsForIP self now now' containerIP) = fst ?A"
    by (auto split: outcome.splits prod.splits option.splits)
  then show ?thesis
    by (simp add: AssumeRole_sent effective_role_def effective_policy_def)
qed

theorem CredentialsForIP_refresh_request_witness:
  "ContainerForIP (container provider0) ''10.0.0.3'' = Inr info1 \<and>
   containerCredentials provider0 ''10.0.0.3'' = None \<and>
   generateSessionName (TypeName (container provider0)) (Id_c info1) =
     Returns ''docker-fedcba9876543210fedcba987'' \<and>
   Empty (IamRole info1) \<and> IamPolicy info1 = ''{}'' \<and>
   sent (CredentialsForIP provider0 0 1 ''10.0.0.3'') =
     [\<lparr>DurationSeconds = Some 3600, Policy = Some ''{}'',
       RoleArn_sts = Some ''arn:aws:iam::1:role/default'',
       RoleSessionName = Some ''docker-fedcba9876543210fedcba987''\<rparr>]"
proof -
  have r: "ContainerForIP (container provider0) ''10.0.0.3'' = Inr info1"
    by (simp add: provider0_def service0_def)
  have e: "containerCredentials provider0 ''10.0.0.3'' = None"
    by (simp add: provider0_def)
  then have e': "containerCredentials provider0 ''10.0.0.3'' = None \<or>
         (\<exists>entry. containerCredentials provider0 ''10.0.0.3'' = Some entry \<and>
                  \<not> IsValid entry 0 info1)" by simp
  have n: "generateSessionName (TypeName (container provider0)) (Id_c info1) =
             Returns ''docker-fedcba9876543210fedcba987''"
    by (simp add: provider0_def service0_def info1_def name1)
  have i: "Empty (IamRole info1) \<and> IamPolicy info1 = ''{}''"
    by (simp add: info1_def Empty_def)
  from CredentialsForIP_refresh_request [OF r e' n, of 1]
  have "sent (CredentialsForIP provider0 0 1 ''10.0.0.3'') =
     [\<lparr>DurationSeconds = Some 3600, Policy = Some ''{}'',
       RoleArn_sts = Some ''arn:aws:iam::1:role/default'',
       RoleSessionName = Some ''docker-fedcba9876543210fedcba987''\<rparr>]"
    by (simp add: info1_def Empty_def String_def provider0_def)
  with r e n i show ?thesis by simp
qed

section \<open>Failures and the frame\<close>

lemma CredentialsForIP_provider:
  "provider (CredentialsForIP self now now' containerIP) = self \<or>
   (\<exists>entry. provider (CredentialsForIP self now now' containerIP) =
      self\<lparr>containerCredentials := (containerCredentials self)(containerIP \<mapsto> entry)\<rparr>)"
proof (cases "ContainerForIP (container self) containerIP")
  case (Inl err)
  then show ?thesis by (simp add: CredentialsForIP_unresolved)
next
  case (Inr c)
  show ?thesis
  proof (cases "\<exists>entry. containerCredentials self containerIP = Some entry \<and> IsValid entry now c")
    case True
    with Inr show ?thesis by (auto simp add: CredentialsForIP_reuse)
  next
    case False
    then have "containerCredentials self containerIP = None \<or>
         (\<exists>entry. containerCredentials self containerIP = Some entry \<and> \<not> IsValid entry now c)"
      by (cases "containerCredentials self containerIP") auto
    from CredentialsForIP_refresh [OF Inr this] show ?thesis
      by (auto split: outcome.splits prod.splits option.splits)
  qed
qed

lemma CredentialsForIP_error_origin:
  assumes "returned (CredentialsForIP self now now' containerIP) = Returns (cr, Some err)"
  shows "cr = Credentials_zero \<and>
         provider (CredentialsForIP self now now' containerIP) = self \<and>
         (ContainerForIP (container self) containerIP = Inl err \<or>
          (\<exists>req. sent (CredentialsForIP self now now' containerIP) = [req] \<and>
                 awsSts self req = Inl err))"
proof (cases "ContainerForIP (container self) containerIP")
  case (Inl e)
  with assms show ?thesis by (simp add: CredentialsForIP_unresolved)
next
  case (Inr c)
  show ?thesis
  proof (cases "\<exists>entry. containerCredentials self containerIP = Some entry \<and> IsValid entry now c")
    case True
    with Inr assms show ?thesis by (auto simp add: CredentialsForIP_reuse)
  next
    case False
    then have stale: "containerCredentials self containerIP = None \<or>
         (\<exists>entry. containerCredentials self containerIP = Some entry \<and> \<not> IsValid entry now c)"
      by (cases "containerCredentials self containerIP") auto
    note eq = CredentialsForIP_refresh [OF Inr stale, of now']
    show ?thesis
    proof (cases "generateSessionName (TypeName (container self)) (Id_c c)")
      case Panics
      with eq assms show ?thesis by simp
    next
      case (Returns name)
      let ?A = "AssumeRole self now' (effective_role self c) (effective_policy self c) name"
      obtain req where req: "fst ?A = [req]" by (simp add: AssumeRole_sent)
      show ?thesis
      proof (cases "snd ?A")
        case Panics
        with eq Returns assms show ?thesis by (simp split: prod.splits)
      next
        case out: (Returns pair)
        obtain role eo where pair: "pair = (role, eo)" by (cases pair)
        show ?thesis
        proof (cases eo)
          case None
          with eq Returns assms out pair show ?thesis by (simp split: prod.splits)
        next
          case (Some e)
          with eq Returns out pair req
          have call: "CredentialsForIP self now now' containerIP =
                  \<lparr>returned = Returns (Credentials_zero, Some e), provider = self,
                   sent = [req]\<rparr>"
            by (simp split: prod.splits)
          with assms have "e = err" and "cr = Credentials_zero" by simp_all
          moreover from out pair Some \<open>e = err\<close> have "snd ?A = Returns (role, Some err)"
            by simp
          then have "awsSts self req = Inl err" by (simp add: AssumeRole_error [OF req])
          ultimately show ?thesis using call by simp
        qed
      qed
    qed
  qed
qed

text \<open>
  Claim C4. When identity resolution fails, or the service answers the request of this
  call with an error, \<^verbatim>\<open>CredentialsForIP\<close> returns that very error and the provider,
  its cache included, is as it was before the call.
\<close>

theorem CredentialsForIP_failure_keeps_cache:
  assumes "ContainerForIP (container self) containerIP = Inl err \<or>
           (\<exists>req. sent (CredentialsForIP self now now' containerIP) = [req] \<and>
                  awsSts self req = Inl err)"
  shows "returned (CredentialsForIP self now now' containerIP) =
           Returns (Credentials_zero, Some err) \<and>
         provider (CredentialsForIP self now now' containerIP) = self"
  using assms
proof
  assume "ContainerForIP (container self) containerIP = Inl err"
  then show ?thesis by (simp add: CredentialsForIP_unresolved)
next
  assume "\<exists>req. sent (CredentialsForIP self now now' containerIP) = [req] \<and>
                awsSts self req = Inl err"
  then obtain req where req: "sent (CredentialsForIP self now now' containerIP) = [req]"
    and err: "awsSts self req = Inl err" by blast
  show ?thesis
  proof (cases "ContainerForIP (container self) containerIP")
    case (Inl e)
    with req show ?thesis by (simp add: CredentialsForIP_unresolved)
  next
    case (Inr c)
    show ?thesis
    proof (cases "\<exists>entry. containerCredentials self containerIP = Some entry \<and> IsValid entry now c")
      case True
      with Inr req show ?thesis by (auto simp add: CredentialsForIP_reuse)
    next
      case False
      then have stale: "containerCredentials self containerIP = None \<or>
           (\<exists>entry. containerCredentials self containerIP = Some entry \<and> \<not> IsValid entry now c)"
        by (cases "containerCredentials self containerIP") auto
      note eq = CredentialsForIP_refresh [OF Inr stale, of now']
      show ?thesis
      proof (cases "generateSessionName (TypeName (container self)) (Id_c c)")
        case Panics
        with eq req show ?thesis by simp
      next
        case (Returns name)
        let ?A = "AssumeRole self now' (effective_role self c) (effective_policy self c) name"
        from eq Returns req have "fst ?A = [req]"
          by (auto split: outcome.splits prod.splits option.splits)
        with err have "snd ?A = Returns (Credentials_zero, Some err)"
          by (simp add: AssumeRole_error)
        with eq Returns show ?thesis
          by (auto split: outcome.splits prod.splits option.splits)
      qed
    qed
  qed
qed

theorem CredentialsForIP_failure_keeps_cache_witness:
  "(\<exists>req. sent (CredentialsForIP provider_denied 400000000000 400000000001 ''10.0.0.2'') = [req] \<and>
          awsSts provider_denied req = Inl (Error ''AccessDenied'')) \<and>
   returned (CredentialsForIP provider_denied 400000000000 400000000001 ''10.0.0.2'') =
     Returns (Credentials_zero, Some (Error ''AccessDenied'')) \<and>
   provider (CredentialsForIP provider_denied 400000000000 400000000001 ''10.0.0.2'') =
     provider_denied \<and>
   containerCredentials
     (provider (CredentialsForIP provider_denied 400000000000 400000000001 ''10.0.0.2''))
     ''10.0.0.2'' = Some \<lparr>ContainerInfo = info0, Credentials = creds0\<rparr>"
proof -
  let ?R = "CredentialsForIP provider_denied 400000000000 400000000001 ''10.0.0.2''"
  have r: "ContainerForIP (container provider_denied) ''10.0.0.2'' = Inr info0"
    by (simp add: provider_denied_def provider0_def service0_def)
  have e: "containerCredentials provider_denied ''10.0.0.2'' =
             Some \<lparr>ContainerInfo = info0, Credentials = creds0\<rparr>"
    by (simp add: provider_denied_def provider0_def)
  have "\<not> IsValid \<lparr>ContainerInfo = info0, Credentials = creds0\<rparr> 400000000000 info0"
    by (simp add: IsValid_iff creds0_def)
  with e have stale: "containerCredentials provider_denied ''10.0.0.2'' = None \<or>
      (\<exists>entry. containerCredentials provider_denied ''10.0.0.2'' = Some entry \<and>
               \<not> IsValid entry 400000000000 info0)" by simp
  have n: "generateSessionName (TypeName (container provider_denied)) (Id_c info0) =
             Returns ''docker-0123456789abcdef012345678''"
    by (simp add: provider_denied_def provider0_def service0_def info0_def name0)
  have "\<exists>req. sent ?R = [req]"
    by (simp add: CredentialsForIP_refresh_sent [OF r stale n] AssumeRole_sent)
  then have h: "\<exists>req. sent ?R = [req] \<and> awsSts provider_denied req = Inl (Error ''AccessDenied'')"
    by (simp add: provider_denied_def sts_denies_def)
  then have "ContainerForIP (container provider_denied) ''10.0.0.2'' = Inl (Error ''AccessDenied'') \<or>
             (\<exists>req. sent ?R = [req] \<and> awsSts provider_denied req = Inl (Error ''AccessDenied''))"
    by (rule disjI2)
  from CredentialsForIP_failure_keeps_cache [OF this] h e show ?thesis by simp
qed

text \<open>
  Claim C10. Whatever the call for an address does, the entry of every other address is
  what it was, and so are the collaborators, the default role and the default policy of
  the provider.
\<close>

theorem CredentialsForIP_frame:
  assumes "k \<noteq> containerIP"
  shows "containerCredentials (provider (CredentialsForIP self now now' containerIP)) k =
           containerCredentials self k \<and>
         container (provider (CredentialsForIP self now now' containerIP)) = container self \<and>
         awsSts (provider (CredentialsForIP self now now' containerIP)) = awsSts self \<and>
         defaultIamRoleArn (provider (CredentialsForIP self now now' containerIP)) =
           defaultIamRoleArn self \<and>
         defaultIamPolicy (provider (CredentialsForIP self now now' containerIP)) =
           defaultIamPolicy self"
  using assms CredentialsForIP_provider [of self now now' containerIP] by auto


theorem CredentialsForIP_frame_witness:
  "''10.0.0.2'' \<noteq> ''10.0.0.3'' \<and>
   containerCredentials (provider (CredentialsForIP provider0 0 1 ''10.0.0.3'')) ''10.0.0.2'' =
     Some \<lparr>ContainerInfo = info0, Credentials = creds0\<rparr> \<and>
   containerCredentials (provider (CredentialsForIP provider0 0 1 ''10.0.0.3'')) ''10.0.0.3'' \<noteq>
     containerCredentials provider0 ''10.0.0.3'' \<and>
   container (provider (CredentialsForIP provider0 0 1 ''10.0.0.3'')) = service0 \<and>
   awsSts (provider (CredentialsForIP provider0 0 1 ''10.0.0.3'')) = sts_grants \<and>
   defaultIamRoleArn (provider (CredentialsForIP provider0 0 1 ''10.0.0.3'')) =
     \<lparr>canonical = ''arn:aws:iam::1:role/default''\<rparr> \<and>
   defaultIamPolicy (provider (CredentialsForIP provider0 0 1 ''10.0.0.3'')) = ''{default}''"
proof -
  let ?R = "CredentialsForIP provider0 0 1 ''10.0.0.3''"
  have k: "''10.0.0.2'' \<noteq> ''10.0.0.3''" by simp
  have r: "ContainerForIP (container provider0) ''10.0.0.3'' = Inr info1"
    by (simp add: provider0_def service0_def)
  have e: "containerCredentials provider0 ''10.0.0.3'' = None"
    by (simp add: provider0_def)
  then have stale: "containerCredentials provider0 ''10.0.0.3'' = None \<or>
      (\<exists>entry. containerCredentials provider0 ''10.0.0.3'' = Some entry \<and>
               \<not> IsValid entry 0 info1)" by simp
  have n: "generateSessionName (TypeName (container provider0)) (Id_c info1) =
             Returns ''docker-fedcba9876543210fedcba987''"
    by (simp add: provider0_def service0_def info1_def name1)
  have "containerCredentials (provider ?R) ''10.0.0.3'' \<noteq> None"
    using CredentialsForIP_refresh [OF r stale, of 1] n
    by (simp add: AssumeRole_def Let_def provider0_def sts_grants_def)
  with e have changed: "containerCredentials (provider ?R) ''10.0.0.3'' \<noteq>
                          containerCredentials provider0 ''10.0.0.3''" by simp
  from CredentialsForIP_frame [OF k, of provider0 0 1] changed show ?thesis
    by (simp add: provider0_def)
qed

end
